theory Spec2Isabelle
  imports Main "HOL-Library.Sublist"
begin

section \<open>Python string primitives\<close>

text \<open>
  Strings are \<open>char list\<close>. Python's \<open>str.lower\<close> is modelled on the ASCII letters
  (\<open>A\<close>..\<open>Z\<close> are moved to \<open>a\<close>..\<open>z\<close>, every other character is kept): this is what
  \<open>lower\<close> does on ASCII text, and the case tables of the rest of Unicode are outside
  the model.
\<close>

definition is_upper_char :: "char \<Rightarrow> bool" where
  "is_upper_char c = (65 \<le> (of_char c :: nat) \<and> (of_char c :: nat) \<le> 90)"

definition is_lower_char :: "char \<Rightarrow> bool" where
  "is_lower_char c = (97 \<le> (of_char c :: nat) \<and> (of_char c :: nat) \<le> 122)"

definition lower_char :: "char \<Rightarrow> char" where
  "lower_char c = (if is_upper_char c then char_of ((of_char c :: nat) + 32) else c)"

definition upper_char :: "char \<Rightarrow> char" where
  "upper_char c = (if is_lower_char c then char_of ((of_char c :: nat) - 32) else c)"

definition str_lower :: "string \<Rightarrow> string" where
  "str_lower s = map lower_char s"

definition str_upper :: "string \<Rightarrow> string" where
  "str_upper s = map upper_char s"

text \<open>\<open>str_in p s\<close> is Python's \<open>p in s\<close> on strings: \<open>p\<close> occurs in \<open>s\<close> as a
  contiguous run of characters. The empty string occurs in every string.\<close>

fun str_in :: "string \<Rightarrow> string \<Rightarrow> bool" where
  "str_in p [] = (p = [])"
| "str_in p (c # cs) = (prefix p (c # cs) \<or> str_in p cs)"

section \<open>Data model\<close>

record CommitInfo =
  hash :: string
  message :: string
  author :: string
  date :: string
  files_changed :: "string list"

text \<open>
  The configuration is a JSON object read with \<open>dict.get\<close> and a default. A key whose
  default is the empty container is a field holding that container when the key is
  absent; a key whose default is something else is an \<open>option\<close>.
\<close>

record SubmoduleConfig =
  reviewers :: "string list"
  critical :: bool
  breaking_change_patterns :: "string list option"

record Config =
  cfg_submodules :: "string \<rightharpoonup> SubmoduleConfig"
  cfg_default_reviewers :: "string list"
  cfg_risk_keywords :: "string \<rightharpoonup> string list"
  cfg_breaking_patterns :: "string list option"

text \<open>The configuration \<open>_load_config\<close> returns when the file does not exist.\<close>

definition default_config :: Config where
  "default_config = \<lparr>
     cfg_submodules = Map.empty,
     cfg_default_reviewers = [''remr11''],
     cfg_risk_keywords = [
       ''high'' \<mapsto> [''security'', ''auth'', ''database'', ''migration'', ''breaking''],
       ''medium'' \<mapsto> [''api'', ''config'', ''deps'', ''dependency'', ''feature''],
       ''low'' \<mapsto> [''docs'', ''test'', ''style'', ''format'', ''refactor'']],
     cfg_breaking_patterns = Some [''BREAKING'', ''breaking:'', ''!:'', ''feat!:'']\<rparr>"

section \<open>Risk classifier: \<open>_analyze_risk_level\<close>\<close>

text \<open>
  The loop over the breaking patterns of one commit: the first pattern whose lower-cased
  form occurs in the lower-cased message sets the flag, adds one to the high-risk
  counter and leaves the loop. The state is (\<open>has_breaking_changes\<close>, \<open>high_risk_count\<close>).
\<close>

fun scan_breaking :: "string list \<Rightarrow> string \<Rightarrow> bool \<times> nat \<Rightarrow> bool \<times> nat" where
  "scan_breaking [] message_lower st = st"
| "scan_breaking (pattern # ps) message_lower (brk, high) =
     (if str_in (str_lower pattern) message_lower then (True, high + 1)
      else scan_breaking ps message_lower (brk, high))"

text \<open>The loop over the medium keywords (the \<open>else\<close> branch of the loop over the high
  keywords): the keyword is tested as it is written.\<close>

fun scan_medium :: "string list \<Rightarrow> string \<Rightarrow> nat \<Rightarrow> nat" where
  "scan_medium [] message_lower med = med"
| "scan_medium (keyword # ks) message_lower med =
     (if str_in keyword message_lower then med + 1
      else scan_medium ks message_lower med)"

text \<open>The loop over the high keywords, a \<open>for ... else\<close>: the medium keywords are
  scanned only when the loop ends without \<open>break\<close>. The state is
  (\<open>high_risk_count\<close>, \<open>medium_risk_count\<close>).\<close>

fun scan_high :: "string list \<Rightarrow> string list \<Rightarrow> string \<Rightarrow> nat \<times> nat \<Rightarrow> nat \<times> nat" where
  "scan_high [] mediums message_lower (high, med) =
     (high, scan_medium mediums message_lower med)"
| "scan_high (keyword # ks) mediums message_lower (high, med) =
     (if str_in keyword message_lower then (high + 1, med)
      else scan_high ks mediums message_lower (high, med))"

text \<open>One iteration of the loop over the commits. The state is
  (\<open>high_risk_count\<close>, \<open>medium_risk_count\<close>, \<open>has_breaking_changes\<close>).\<close>

definition count_commit ::
  "string list \<Rightarrow> string list \<Rightarrow> string list \<Rightarrow> CommitInfo \<Rightarrow> nat \<times> nat \<times> bool \<Rightarrow> nat \<times> nat \<times> bool" where
  "count_commit breaking_patterns highs mediums commit st =
     (case st of (high, med, brk) \<Rightarrow>
        (let message_lower = str_lower (message commit) in
         case scan_breaking breaking_patterns message_lower (brk, high) of (brk1, high1) \<Rightarrow>
         case scan_high highs mediums message_lower (high1, med) of (high2, med2) \<Rightarrow>
           (high2, med2, brk1)))"

fun count_commits ::
  "string list \<Rightarrow> string list \<Rightarrow> string list \<Rightarrow> CommitInfo list \<Rightarrow> nat \<times> nat \<times> bool \<Rightarrow> nat \<times> nat \<times> bool" where
  "count_commits breaking_patterns highs mediums [] st = st"
| "count_commits breaking_patterns highs mediums (commit # cs) st =
     count_commits breaking_patterns highs mediums cs
       (count_commit breaking_patterns highs mediums commit st)"

text \<open>The values read from the configuration at the head of \<open>_analyze_risk_level\<close>.\<close>

definition keywords_of :: "Config \<Rightarrow> string \<Rightarrow> string list" where
  "keywords_of config tier = (case cfg_risk_keywords config tier of None \<Rightarrow> [] | Some ks \<Rightarrow> ks)"

definition is_critical :: "Config \<Rightarrow> string \<Rightarrow> bool" where
  "is_critical config submodule_name =
     (case cfg_submodules config submodule_name of None \<Rightarrow> False | Some sc \<Rightarrow> critical sc)"

definition breaking_patterns_of :: "Config \<Rightarrow> string \<Rightarrow> string list" where
  "breaking_patterns_of config submodule_name =
     (let fallback = (case cfg_breaking_patterns config of
                        None \<Rightarrow> [''BREAKING'', ''breaking:'', ''!:'']
                      | Some ps \<Rightarrow> ps)
      in case cfg_submodules config submodule_name of
           None \<Rightarrow> fallback
         | Some sc \<Rightarrow> (case breaking_change_patterns sc of None \<Rightarrow> fallback | Some ps \<Rightarrow> ps))"

text \<open>The counters and the flag when the loop over the commits has ended.\<close>

definition risk_counters :: "Config \<Rightarrow> CommitInfo list \<Rightarrow> string \<Rightarrow> nat \<times> nat \<times> bool" where
  "risk_counters config commits submodule_name =
     count_commits (breaking_patterns_of config submodule_name)
       (keywords_of config ''high'') (keywords_of config ''medium'') commits (0, 0, False)"

definition analyze_risk_level :: "Config \<Rightarrow> CommitInfo list \<Rightarrow> string \<Rightarrow> string \<times> string \<times> bool" where
  "analyze_risk_level config commits submodule_name =
     (case risk_counters config commits submodule_name of
        (high_risk_count, medium_risk_count, has_breaking_changes) \<Rightarrow>
          (let risk_level =
                 (if has_breaking_changes \<or> high_risk_count > 0 then ''high''
                  else if medium_risk_count > 2
                          \<or> (medium_risk_count > 0 \<and> is_critical config submodule_name)
                       then ''medium''
                  else ''low'');
               change_type =
                 (if has_breaking_changes then ''breaking''
                  else if list_ex (\<lambda>c. str_in ''feat'' (str_lower (message c))) commits
                       then ''feature''
                  else if list_ex (\<lambda>c. str_in ''fix'' (str_lower (message c))) commits
                       then ''bugfix''
                  else ''maintenance'')
           in (risk_level, change_type, has_breaking_changes)))"

section \<open>More string primitives\<close>

text \<open>\<open>split_on d s\<close> is \<open>s.split(d)\<close> for a one-character separator: the empty string
  gives one empty piece, and \<open>n\<close> separators give \<open>n + 1\<close> pieces.\<close>

fun split_on :: "char \<Rightarrow> string \<Rightarrow> string list" where
  "split_on d [] = [[]]"
| "split_on d (c # cs) =
     (if c = d then [] # split_on d cs
      else (case split_on d cs of [] \<Rightarrow> [[c]] | w # ws \<Rightarrow> (c # w) # ws))"

text \<open>The ASCII characters for which \<open>str.isspace\<close> holds.\<close>

definition is_space :: "char \<Rightarrow> bool" where
  "is_space c = (let n = (of_char c :: nat) in (9 \<le> n \<and> n \<le> 13) \<or> (28 \<le> n \<and> n \<le> 32))"

definition strip :: "string \<Rightarrow> string" where
  "strip s = rev (dropWhile is_space (rev (dropWhile is_space s)))"

text \<open>The truth value of \<open>c.strip()\<close>: a string is true when it is not empty.\<close>

definition nonblank :: "string \<Rightarrow> bool" where
  "nonblank s = (strip s \<noteq> [])"

definition newline :: char where
  "newline = CHR 0x0A"

text \<open>\<open>join_lines\<close> is \<open>"\n".join\<close>.\<close>

fun join_lines :: "string list \<Rightarrow> string" where
  "join_lines [] = []"
| "join_lines [s] = s"
| "join_lines (s # t # ss) = s @ newline # join_lines (t # ss)"

text \<open>The decimal numeral an f-string writes for a non-negative \<open>int\<close>.\<close>

fun str_of_nat :: "nat \<Rightarrow> string" where
  "str_of_nat n =
     (if n < 10 then [char_of (48 + n)]
      else str_of_nat (n div 10) @ [char_of (48 + n mod 10)])"

text \<open>\<open>str.title\<close>: a letter that follows a letter is lower-cased, any other letter is
  upper-cased. The flag says whether the previous character was a letter.\<close>

fun title_from :: "bool \<Rightarrow> string \<Rightarrow> string" where
  "title_from prev [] = []"
| "title_from prev (c # cs) =
     (if prev then lower_char c else upper_char c)
       # title_from (is_upper_char c \<or> is_lower_char c) cs"

definition str_title :: "string \<Rightarrow> string" where
  "str_title s = title_from False s"

text \<open>\<open>Path(path).name\<close> on a POSIX path: the last component that is neither empty nor
  \<open>.\<close>, and the empty string when there is none.\<close>

definition path_name :: "string \<Rightarrow> string" where
  "path_name p =
     (case rev (filter (\<lambda>s. s \<noteq> [] \<and> s \<noteq> ''.'') (split_on (CHR ''/'') p)) of
        [] \<Rightarrow> []
      | s # _ \<Rightarrow> s)"

section \<open>Analyses and results\<close>

record SubmoduleAnalysis =
  name :: string
  path :: string
  old_commit :: string
  new_commit :: string
  commits_count :: nat
  commits :: "CommitInfo list"
  risk_level :: string
  change_type :: string
  breaking_changes :: bool
  suggested_reviewers :: "string list"

text \<open>\<open>AnalysisResult.suggested_reviewers\<close> is \<open>list(set(...))\<close>, a list in no fixed
  order: the field \<open>result_reviewers\<close> holds the set.\<close>

record AnalysisResult =
  summary :: string
  submodules :: "SubmoduleAnalysis list"
  total_commits :: nat
  overall_risk :: string
  result_reviewers :: "string set"
  pr_title :: string
  pr_body :: string

datatype error = KeyError string

section \<open>Report composer: \<open>_generate_pr_content\<close>\<close>

text \<open>The symbols of the templates, as their UTF-8 bytes.\<close>

definition sym_robot :: string where
  "sym_robot = [CHR 0xF0, CHR 0x9F, CHR 0xA4, CHR 0x96]"

definition sym_boom :: string where
  "sym_boom = [CHR 0xF0, CHR 0x9F, CHR 0x92, CHR 0xA5]"

definition sym_chart :: string where
  "sym_chart = [CHR 0xF0, CHR 0x9F, CHR 0x93, CHR 0x8A]"

definition sym_package :: string where
  "sym_package = [CHR 0xF0, CHR 0x9F, CHR 0x93, CHR 0xA6]"

definition sym_red :: string where
  "sym_red = [CHR 0xF0, CHR 0x9F, CHR 0x94, CHR 0xB4]"

definition sym_yellow :: string where
  "sym_yellow = [CHR 0xF0, CHR 0x9F, CHR 0x9F, CHR 0xA1]"

definition sym_green :: string where
  "sym_green = [CHR 0xF0, CHR 0x9F, CHR 0x9F, CHR 0xA2]"

definition sym_sparkles :: string where
  "sym_sparkles = [CHR 0xE2, CHR 0x9C, CHR 0xA8]"

definition sym_bug :: string where
  "sym_bug = [CHR 0xF0, CHR 0x9F, CHR 0x90, CHR 0x9B]"

definition sym_wrench :: string where
  "sym_wrench = [CHR 0xF0, CHR 0x9F, CHR 0x94, CHR 0xA7]"

definition sym_arrow :: string where
  "sym_arrow = [CHR 0xE2, CHR 0x86, CHR 0x92]"

definition sym_warning :: string where
  "sym_warning = [CHR 0xE2, CHR 0x9A, CHR 0xA0, CHR 0xEF, CHR 0xB8, CHR 0x8F]"

definition sym_check :: string where
  "sym_check = [CHR 0xE2, CHR 0x9C, CHR 0x85]"

definition sym_siren :: string where
  "sym_siren = [CHR 0xF0, CHR 0x9F, CHR 0x9A, CHR 0xA8]"

text \<open>Indexing a dict literal: a key that is not there raises \<open>KeyError\<close>.\<close>

definition dict_get :: "(string \<times> string) list \<Rightarrow> string \<Rightarrow> error + string" where
  "dict_get table k = (case map_of table k of None \<Rightarrow> Inl (KeyError k) | Some v \<Rightarrow> Inr v)"

definition risk_emoji_table :: "(string \<times> string) list" where
  "risk_emoji_table = [(''high'', sym_red), (''medium'', sym_yellow), (''low'', sym_green)]"

definition change_emoji_table :: "(string \<times> string) list" where
  "change_emoji_table =
     [(''breaking'', sym_boom), (''feature'', sym_sparkles),
      (''bugfix'', sym_bug), (''maintenance'', sym_wrench)]"

definition pr_title_of :: "AnalysisResult \<Rightarrow> string" where
  "pr_title_of result =
     (case submodules result of
        [submodule] \<Rightarrow>
          (let title = sym_robot @ '' Update '' @ name submodule @ '' (''
                         @ str_of_nat (commits_count submodule) @ '' commits)''
           in if breaking_changes submodule
              then sym_boom @ '' '' @ title @ '' - BREAKING CHANGES'' else title)
      | subs \<Rightarrow>
          (let title = sym_robot @ '' Update '' @ str_of_nat (length subs) @ '' submodules (''
                         @ str_of_nat (total_commits result) @ '' commits)''
           in if list_ex breaking_changes subs
              then sym_boom @ '' '' @ title @ '' - BREAKING CHANGES'' else title))"

text \<open>The lines written for the commits of one submodule (the block under
  \<open>if submodule.commits\<close>).\<close>

definition commit_line :: "CommitInfo \<Rightarrow> string" where
  "commit_line commit =
     ''- `'' @ hash commit @ ''` '' @ message commit @ '' ('' @ author commit @ '')''"

definition commit_lines :: "SubmoduleAnalysis \<Rightarrow> string list" where
  "commit_lines submodule =
     (if commits submodule \<noteq> [] then
        [newline # ''**Recent commits**:'']
        @ map commit_line (take 5 (commits submodule))
        @ (if length (commits submodule) > 5
           then [''- ... and '' @ str_of_nat (length (commits submodule) - 5) @ '' more commits'']
           else [])
      else [])"

text \<open>One iteration of the loop over \<open>result.submodules\<close>: the lines appended to
  \<open>body_parts\<close>, or the \<open>KeyError\<close> of a badge lookup.\<close>

definition submodule_block :: "SubmoduleAnalysis \<Rightarrow> error + string list" where
  "submodule_block submodule =
     (case dict_get risk_emoji_table (risk_level submodule) of
        Inl e \<Rightarrow> Inl e
      | Inr risk_emoji \<Rightarrow>
     (case dict_get change_emoji_table (change_type submodule) of
        Inl e \<Rightarrow> Inl e
      | Inr change_emoji \<Rightarrow>
          Inr ([''### '' @ change_emoji @ '' '' @ name submodule,
                ''- **Risk Level**: '' @ risk_emoji @ '' '' @ str_upper (risk_level submodule),
                ''- **Change Type**: '' @ str_title (change_type submodule),
                ''- **Commits**: '' @ str_of_nat (commits_count submodule),
                ''- **From**: `'' @ old_commit submodule @ ''` '' @ sym_arrow
                  @ '' **To**: `'' @ new_commit submodule @ ''`'']
               @ (if breaking_changes submodule
                  then [''- '' @ sym_warning @ ''  **CONTAINS BREAKING CHANGES**''] else [])
               @ commit_lines submodule
               @ [[]])))"

fun submodule_blocks :: "SubmoduleAnalysis list \<Rightarrow> error + string list" where
  "submodule_blocks [] = Inr []"
| "submodule_blocks (submodule # rest) =
     (case submodule_block submodule of
        Inl e \<Rightarrow> Inl e
      | Inr ls \<Rightarrow> (case submodule_blocks rest of Inl e \<Rightarrow> Inl e | Inr ls2 \<Rightarrow> Inr (ls @ ls2)))"

definition generate_pr_content :: "AnalysisResult \<Rightarrow> error + string \<times> string" where
  "generate_pr_content result =
     (let title = pr_title_of result in
      case submodule_blocks (submodules result) of
        Inl e \<Rightarrow> Inl e
      | Inr blocks \<Rightarrow>
          Inr (title,
               join_lines
                 ([''## '' @ sym_chart @ '' Summary'' @ [newline, newline] @ summary result,
                   ''## '' @ sym_package @ '' Submodule Details'' @ [newline]]
                  @ blocks
                  @ [''## '' @ sym_check @ '' Review Checklist'' @ [newline],
                     ''- [ ] Verify all submodule updates are expected'',
                     ''- [ ] Check for breaking changes impact'',
                     ''- [ ] Ensure CI/CD compatibility'',
                     ''- [ ] Update documentation if needed'']
                  @ (if list_ex breaking_changes (submodules result)
                     then [''- [ ] '' @ sym_boom @ '' **CRITICAL**: Review breaking changes carefully'',
                           ''- [ ] Update dependent code if necessary'']
                     else [])
                  @ [newline # ''---'',
                     ''*'' @ sym_robot
                       @ '' Generated automatically by submodule-bot with AI analysis*''])))"

section \<open>Submodule aggregator: \<open>analyze_submodules\<close>\<close>

text \<open>
  \<open>_run_git_command\<close> is the collaborator: a function from the command line and the
  working directory to the stripped standard output, the empty string when the command
  fails or the directory does not exist. It is a parameter \<open>git\<close> of the model.
\<close>

type_synonym git_runner = "string list \<Rightarrow> string \<Rightarrow> string"

definition unknown_commit :: "string \<Rightarrow> string list \<Rightarrow> CommitInfo" where
  "unknown_commit commit_hash files =
     \<lparr>hash = take 8 commit_hash, message = ''Unknown'', author = ''Unknown'',
      date = [], files_changed = files\<rparr>"

definition get_commit_info :: "git_runner \<Rightarrow> string \<Rightarrow> string \<Rightarrow> CommitInfo" where
  "get_commit_info git commit_hash repo_path =
     (let commit_header =
            git [''git'', ''show'', ''--format=%H|%s|%an|%ai'', ''-s'', commit_hash] repo_path;
          files_output =
            git [''git'', ''show'', ''--name-only'', ''--format='', commit_hash] repo_path;
          files = (if files_output \<noteq> []
                   then filter nonblank (split_on newline files_output) else [])
      in if commit_header = [] then unknown_commit commit_hash files
         else (case split_on (CHR ''|'') commit_header of
                 p0 # p1 # p2 # p3 # _ \<Rightarrow>
                   \<lparr>hash = take 8 p0, message = p1, author = p2, date = p3,
                    files_changed = files\<rparr>
               | _ \<Rightarrow> unknown_commit commit_hash files))"

text \<open>An input descriptor, a JSON object with the keys \<open>path\<close>, \<open>new_commit\<close> and,
  optionally, \<open>old_commit\<close>.\<close>

record SubmoduleInfo =
  info_path :: string
  info_new_commit :: string
  info_old_commit :: "string option"

text \<open>The old revision after the lookup of the previous one: \<open>None\<close> is the
  \<open>continue\<close> that skips the descriptor.\<close>

definition resolve_old_commit :: "git_runner \<Rightarrow> SubmoduleInfo \<Rightarrow> string option" where
  "resolve_old_commit git submodule_info =
     (let old = (case info_old_commit submodule_info of None \<Rightarrow> [] | Some s \<Rightarrow> s)
      in if old = [] \<or> old = ''unknown''
         then (let prev = git [''git'', ''rev-parse'', (''HEAD@'' @ ''{1}'')] (info_path submodule_info)
               in if prev = [] then None else Some prev)
         else Some old)"

text \<open>The lines of \<open>git rev-list --reverse old..new\<close>, oldest first (the empty list
  when the two revisions are equal and no command is run).\<close>

definition commit_hashes_of :: "git_runner \<Rightarrow> string \<Rightarrow> string \<Rightarrow> string \<Rightarrow> string list" where
  "commit_hashes_of git repo_path old new =
     (if old \<noteq> [] \<and> old \<noteq> new
      then split_on newline
             (git [''git'', ''rev-list'', ''--reverse'', old @ ''..'' @ new] repo_path)
      else [])"

text \<open>One iteration of the loop over the descriptors.\<close>

definition analyze_one :: "git_runner \<Rightarrow> Config \<Rightarrow> SubmoduleInfo \<Rightarrow> SubmoduleAnalysis option" where
  "analyze_one git config submodule_info =
     (case resolve_old_commit git submodule_info of
        None \<Rightarrow> None
      | Some old \<Rightarrow>
          (let p = info_path submodule_info;
               new = info_new_commit submodule_info;
               submodule_name = path_name p;
               commit_hashes = commit_hashes_of git p old new;
               count = length (filter nonblank commit_hashes);
               cs = map (\<lambda>h. get_commit_info git (strip h) p)
                      (filter nonblank (take 10 commit_hashes))
           in case analyze_risk_level config cs submodule_name of
                (risk, change, breaking) \<Rightarrow>
                  Some \<lparr>name = submodule_name, path = p,
                        old_commit = (if old \<noteq> [] then take 8 old else ''unknown''),
                        new_commit = take 8 new,
                        commits_count = count, commits = cs,
                        risk_level = risk, change_type = change,
                        breaking_changes = breaking,
                        suggested_reviewers =
                          (case cfg_submodules config submodule_name of
                             None \<Rightarrow> [] | Some sc \<Rightarrow> reviewers sc)\<rparr>))"

text \<open>The loop over the descriptors. The state is
  (\<open>submodule_analyses\<close>, \<open>total_commits\<close>).\<close>

fun analyze_loop ::
  "git_runner \<Rightarrow> Config \<Rightarrow> SubmoduleInfo list \<Rightarrow> SubmoduleAnalysis list \<times> nat
     \<Rightarrow> SubmoduleAnalysis list \<times> nat" where
  "analyze_loop git config [] st = st"
| "analyze_loop git config (submodule_info # rest) (analyses, tot) =
     (case analyze_one git config submodule_info of
        None \<Rightarrow> analyze_loop git config rest (analyses, tot)
      | Some analysis \<Rightarrow>
          analyze_loop git config rest (analyses @ [analysis], tot + commits_count analysis))"

definition overall_risk_of :: "SubmoduleAnalysis list \<Rightarrow> string" where
  "overall_risk_of submodule_analyses =
     (if list_ex breaking_changes submodule_analyses then ''high''
      else if list_ex (\<lambda>s. risk_level s = ''high'') submodule_analyses then ''high''
      else if list_ex (\<lambda>s. risk_level s = ''medium'') submodule_analyses then ''medium''
      else ''low'')"

definition summary_of :: "SubmoduleAnalysis list \<Rightarrow> nat \<Rightarrow> string" where
  "summary_of submodule_analyses tot =
     (let breaking_count = length (filter breaking_changes submodule_analyses)
      in if breaking_count > 0
         then sym_siren @ '' Updated '' @ str_of_nat (length submodule_analyses)
                @ '' submodule(s) with '' @ str_of_nat tot @ '' total commits. ''
                @ str_of_nat breaking_count
                @ '' submodule(s) contain BREAKING CHANGES that require careful review.''
         else sym_check @ '' Updated '' @ str_of_nat (length submodule_analyses)
                @ '' submodule(s) with '' @ str_of_nat tot
                @ '' total commits. No breaking changes detected.'')"

definition get_suggested_reviewers :: "Config \<Rightarrow> SubmoduleAnalysis list \<Rightarrow> string set" where
  "get_suggested_reviewers config submodule_analyses =
     set (cfg_default_reviewers config)
     \<union> (\<Union>analysis \<in> set submodule_analyses.
          case cfg_submodules config (name analysis) of
            None \<Rightarrow> {} | Some sc \<Rightarrow> set (reviewers sc))"

definition analyze_submodules ::
  "git_runner \<Rightarrow> Config \<Rightarrow> SubmoduleInfo list \<Rightarrow> error + AnalysisResult" where
  "analyze_submodules git config submodules_data =
     (case analyze_loop git config submodules_data ([], 0) of
        (submodule_analyses, tot) \<Rightarrow>
          (let result = \<lparr>summary = summary_of submodule_analyses tot,
                         submodules = submodule_analyses,
                         total_commits = tot,
                         overall_risk = overall_risk_of submodule_analyses,
                         result_reviewers = get_suggested_reviewers config submodule_analyses,
                         pr_title = [], pr_body = []\<rparr>
           in case generate_pr_content result of
                Inl e \<Rightarrow> Inl e
              | Inr (title, body) \<Rightarrow> Inr (result\<lparr>pr_title := title, pr_body := body\<rparr>)))"

section \<open>Vocabulary of the properties\<close>

text \<open>A commit \<^emph>\<open>hits\<close> a list of breaking patterns when some pattern, lower-cased, occurs
  in its lower-cased message; it hits a list of keywords when some keyword, as written,
  occurs in its lower-cased message.\<close>

definition breaking_hit :: "string list \<Rightarrow> CommitInfo \<Rightarrow> bool" where
  "breaking_hit breaking_patterns commit =
     list_ex (\<lambda>pattern. str_in (str_lower pattern) (str_lower (message commit))) breaking_patterns"

definition keyword_hit :: "string list \<Rightarrow> CommitInfo \<Rightarrow> bool" where
  "keyword_hit keywords commit =
     list_ex (\<lambda>keyword. str_in keyword (str_lower (message commit))) keywords"

text \<open>A commit with a given message, and the configuration of the docstring of
  \<open>SubmoduleAnalyzer.__init__\<close>, for the examples.\<close>

definition example_commit :: "string \<Rightarrow> CommitInfo" where
  "example_commit m =
     \<lparr>hash = ''0a1b2c3d'', message = m, author = ''dev'', date = [], files_changed = []\<rparr>"

definition example_config :: Config where
  "example_config = \<lparr>
     cfg_submodules = [
       ''frontend-lib'' \<mapsto>
         \<lparr>reviewers = [''frontend-team'', ''user1''], critical = True,
          breaking_change_patterns = Some [''BREAKING'', ''breaking:'', ''!:'']\<rparr>,
       ''backend-api'' \<mapsto>
         \<lparr>reviewers = [''backend-team'', ''user2''], critical = True,
          breaking_change_patterns = Some [''BREAKING'', ''breaking:'', ''feat!:'']\<rparr>],
     cfg_default_reviewers = [''remr11''],
     cfg_risk_keywords = [
       ''high'' \<mapsto> [''security'', ''auth'', ''database'', ''migration''],
       ''medium'' \<mapsto> [''api'', ''config'', ''deps'', ''dependency''],
       ''low'' \<mapsto> [''docs'', ''test'', ''style'', ''format'']],
     cfg_breaking_patterns = None\<rparr>"

text \<open>A descriptor is \<^emph>\<open>skipped\<close> when its old revision is absent, empty or the sentinel
  \<open>unknown\<close> (the test \<open>not old_commit or old_commit == "unknown"\<close>, where an absent key
  reads as the empty string) and the lookup of the previous revision returns nothing.\<close>

definition skipped :: "git_runner \<Rightarrow> SubmoduleInfo \<Rightarrow> bool" where
  "skipped git submodule_info =
     ((case info_old_commit submodule_info of
         None \<Rightarrow> True
       | Some old \<Rightarrow> old = [] \<or> old = ''unknown'')
      \<and> git [''git'', ''rev-parse'', (''HEAD@'' @ ''{1}'')] (info_path submodule_info) = [])"

text \<open>The commit identifiers of the range \<open>old..new\<close> of a descriptor: the lines of the
  \<open>rev-list\<close> output that are not blank, oldest first.\<close>

definition range_ids :: "git_runner \<Rightarrow> SubmoduleInfo \<Rightarrow> string \<Rightarrow> string list" where
  "range_ids git submodule_info old =
     filter nonblank
       (commit_hashes_of git (info_path submodule_info) old (info_new_commit submodule_info))"

text \<open>The values of \<open>risk_level\<close> and \<open>change_type\<close> that have a badge.\<close>

definition risk_levels :: "string set" where
  "risk_levels = {''high'', ''medium'', ''low''}"

definition change_types :: "string set" where
  "change_types = {''breaking'', ''feature'', ''bugfix'', ''maintenance''}"

text \<open>
  A collaborator for the examples. The submodule \<open>libs/frontend-lib\<close> has three commits in
  its range, \<open>libs/big\<close> has twelve; every other \<open>rev-list\<close> is empty and every
  \<open>rev-parse\<close> fails. The input has two descriptors whose old revision cannot be resolved
  and one whose old and new revisions are equal.
\<close>

definition example_hashes :: "string \<Rightarrow> string list" where
  "example_hashes cwd =
     (if cwd = ''libs/frontend-lib'' then [''c1'', ''c2'', ''c3'']
      else if cwd = ''libs/big''
        then [''h01'', ''h02'', ''h03'', ''h04'', ''h05'', ''h06'',
              ''h07'', ''h08'', ''h09'', ''h10'', ''h11'', ''h12'']
      else [])"

definition example_message :: "string \<Rightarrow> string" where
  "example_message commit_hash =
     (if commit_hash = ''c1'' then ''feat: add widget''
      else if commit_hash = ''c2'' then ''fix: crash on load''
      else if commit_hash = ''c3'' then ''BREAKING: remove old API''
      else ''chore: sync'')"

definition example_git :: git_runner where
  "example_git command cwd =
     (if take 3 command = [''git'', ''rev-list'', ''--reverse'']
        then join_lines (example_hashes cwd)
      else if take 3 command = [''git'', ''show'', ''--format=%H|%s|%an|%ai'']
        then last command @ ''|'' @ example_message (last command) @ ''|dev|2024-05-01''
      else [])"

definition example_input :: "SubmoduleInfo list" where
  "example_input =
     [\<lparr>info_path = ''libs/frontend-lib'', info_new_commit = ''bbbbbbbbbbbb'',
       info_old_commit = Some ''aaaaaaaaaaaa''\<rparr>,
      \<lparr>info_path = ''libs/gone'', info_new_commit = ''bbbbbbbbbbbb'',
       info_old_commit = None\<rparr>,
      \<lparr>info_path = ''libs/big'', info_new_commit = ''dddddddddddd'',
       info_old_commit = Some ''cccccccccccc''\<rparr>,
      \<lparr>info_path = ''libs/lost'', info_new_commit = ''bbbbbbbbbbbb'',
       info_old_commit = Some ''unknown''\<rparr>,
      \<lparr>info_path = ''docs-site'', info_new_commit = ''eeeeeeeeeeee'',
       info_old_commit = Some ''eeeeeeeeeeee''\<rparr>]"

definition example_analysis ::
  "CommitInfo list \<Rightarrow> string \<Rightarrow> string \<Rightarrow> bool \<Rightarrow> SubmoduleAnalysis" where
  "example_analysis cs lvl ty brk =
     \<lparr>name = ''frontend-lib'', path = ''libs/frontend-lib'', old_commit = ''aaaaaaaa'',
      new_commit = ''bbbbbbbb'', commits_count = length cs, commits = cs,
      risk_level = lvl, change_type = ty, breaking_changes = brk,
      suggested_reviewers = []\<rparr>"

definition example_result :: "SubmoduleAnalysis list \<Rightarrow> AnalysisResult" where
  "example_result analyses =
     \<lparr>summary = [], submodules = analyses, total_commits = 0, overall_risk = ''low'',
      result_reviewers = {}, pr_title = [], pr_body = []\<rparr>"

definition numbered_commit :: "nat \<Rightarrow> CommitInfo" where
  "numbered_commit i =
     \<lparr>hash = ''c'' @ str_of_nat i, message = ''change '' @ str_of_nat i, author = ''dev'',
      date = [], files_changed = []\<rparr>"

definition six_commits :: "CommitInfo list" where
  "six_commits = map numbered_commit [1, 2, 3, 4, 5, 6]"


section \<open>Properties of the classifier\<close>

text \<open>
  C6. For the empty list of commits the classifier returns risk level \<open>low\<close>, change type
  \<open>maintenance\<close> and no breaking flag, whatever the submodule name and the configuration.
\<close>

theorem analyze_risk_level_empty:
  "analyze_risk_level config [] submodule_name = (''low'', ''maintenance'', False)"
  by (simp add: analyze_risk_level_def risk_counters_def)

subsection \<open>The loops in closed form\<close>

lemma scan_breaking_eq:
  "scan_breaking ps m (b, h) =
     (if list_ex (\<lambda>p. str_in (str_lower p) m) ps then (True, h + 1) else (b, h))"
  by (induction ps) simp_all

lemma scan_medium_eq:
  "scan_medium ks m n = (if list_ex (\<lambda>k. str_in k m) ks then n + 1 else n)"
  by (induction ks) simp_all

lemma scan_high_eq:
  "scan_high ks ms m (h, n) =
     (if list_ex (\<lambda>k. str_in k m) ks then (h + 1, n) else (h, scan_medium ms m n))"
  by (induction ks) simp_all

lemma count_commit_eq:
  "count_commit bp hs ms c (h, m, b) =
     (h + (if breaking_hit bp c then 1 else 0) + (if keyword_hit hs c then 1 else 0),
      m + (if \<not> keyword_hit hs c \<and> keyword_hit ms c then 1 else 0),
      b \<or> breaking_hit bp c)"
  by (simp add: count_commit_def scan_breaking_eq scan_high_eq scan_medium_eq
        breaking_hit_def keyword_hit_def)

lemma count_commits_eq:
  "count_commits bp hs ms cs (h, m, b) =
     (h + length (filter (breaking_hit bp) cs) + length (filter (keyword_hit hs) cs),
      m + length (filter (\<lambda>c. \<not> keyword_hit hs c \<and> keyword_hit ms c) cs),
      b \<or> list_ex (breaking_hit bp) cs)"
proof (induction cs arbitrary: h m b)
  case Nil
  show ?case by simp
next
  case (Cons c cs)
  show ?case
    by (simp add: count_commit_eq Cons.IH)
qed

lemma risk_counters_eq:
  "risk_counters config cs nm =
     (length (filter (breaking_hit (breaking_patterns_of config nm)) cs)
        + length (filter (keyword_hit (keywords_of config ''high'')) cs),
      length (filter (\<lambda>c. \<not> keyword_hit (keywords_of config ''high'') c
                           \<and> keyword_hit (keywords_of config ''medium'') c) cs),
      list_ex (breaking_hit (breaking_patterns_of config nm)) cs)"
  by (simp add: risk_counters_def count_commits_eq)


subsection \<open>What one commit adds to the counters\<close>

text \<open>
  C1 (as amended). The scan of the breaking patterns and the scan of the keywords are
  independent. A commit that hits the breaking patterns adds exactly one to the high-risk
  counter, however many patterns occur in it, and sets the flag. The keywords are then
  scanned whether or not a pattern occurred: a commit that hits the high keywords adds
  exactly one more to the high-risk counter, and otherwise a commit that hits the medium
  keywords adds exactly one to the medium-risk counter. So one commit adds at most two to
  the high-risk counter and at most one to the medium-risk counter, and never adds to
  both counters through keywords.
\<close>

theorem commit_increments:
  "count_commit bp hs ms c (h, m, b) =
     (h + (if breaking_hit bp c then 1 else 0) + (if keyword_hit hs c then 1 else 0),
      m + (if keyword_hit hs c then 0 else if keyword_hit ms c then 1 else 0),
      b \<or> breaking_hit bp c)"
  by (simp add: count_commit_eq)

text \<open>
  The claim as written fails under the default configuration: the commit
  \<open>BREAKING: remove old API\<close> hits a breaking pattern and the high keyword \<open>breaking\<close>
  and adds two to the high-risk counter; the commit \<open>feat!: api change\<close> hits a breaking
  pattern and the medium keyword \<open>api\<close> and adds one to each counter.
\<close>

theorem breaking_commit_counted_twice:
  "breaking_hit (breaking_patterns_of default_config ''frontend-lib'')
     (example_commit ''BREAKING: remove old API'')
   \<and> count_commit (breaking_patterns_of default_config ''frontend-lib'')
       (keywords_of default_config ''high'') (keywords_of default_config ''medium'')
       (example_commit ''BREAKING: remove old API'') (0, 0, False) = (2, 0, True)
   \<and> breaking_hit (breaking_patterns_of default_config ''frontend-lib'')
       (example_commit ''feat!: api change'')
   \<and> count_commit (breaking_patterns_of default_config ''frontend-lib'')
       (keywords_of default_config ''high'') (keywords_of default_config ''medium'')
       (example_commit ''feat!: api change'') (0, 0, False) = (1, 1, True)"
  by code_simp

subsection \<open>Risk level\<close>

text \<open>
  C2. With \<open>high\<close>, \<open>med\<close> and \<open>brk\<close> the counters and the flag at the end of the loop, the
  risk level is \<open>high\<close> exactly when the flag is set or \<open>high\<close> is positive; otherwise it is
  \<open>medium\<close> exactly when \<open>med\<close> exceeds 2, or \<open>med\<close> is positive and the submodule is
  critical; otherwise it is \<open>low\<close>. With one medium commit and nothing else the level is
  \<open>medium\<close> for a critical submodule and \<open>low\<close> for another one. The counters count the
  commits that hit the breaking patterns, the high keywords, and the medium keywords
  without the high ones.
\<close>

theorem risk_level_rule:
  assumes "risk_counters config cs nm = (high, med, brk)"
  shows "(fst (analyze_risk_level config cs nm) = ''high'' \<longleftrightarrow> brk \<or> 0 < high)
       \<and> (fst (analyze_risk_level config cs nm) = ''medium'' \<longleftrightarrow>
            \<not> (brk \<or> 0 < high) \<and> (2 < med \<or> (0 < med \<and> is_critical config nm)))
       \<and> (fst (analyze_risk_level config cs nm) = ''low'' \<longleftrightarrow>
            \<not> (brk \<or> 0 < high) \<and> \<not> (2 < med \<or> (0 < med \<and> is_critical config nm)))
       \<and> (med = 1 \<and> high = 0 \<and> \<not> brk \<longrightarrow>
            fst (analyze_risk_level config cs nm)
              = (if is_critical config nm then ''medium'' else ''low''))
       \<and> brk = list_ex (breaking_hit (breaking_patterns_of config nm)) cs
       \<and> high = length (filter (breaking_hit (breaking_patterns_of config nm)) cs)
                + length (filter (keyword_hit (keywords_of config ''high'')) cs)
       \<and> med = length (filter (\<lambda>c. \<not> keyword_hit (keywords_of config ''high'') c
                                    \<and> keyword_hit (keywords_of config ''medium'') c) cs)"
proof -
  have lvl: "fst (analyze_risk_level config cs nm) =
               (if brk \<or> 0 < high then ''high''
                else if 2 < med \<or> (0 < med \<and> is_critical config nm) then ''medium''
                else ''low'')"
    using assms by (simp add: analyze_risk_level_def Let_def)
  have cnt: "brk = list_ex (breaking_hit (breaking_patterns_of config nm)) cs
       \<and> high = length (filter (breaking_hit (breaking_patterns_of config nm)) cs)
                + length (filter (keyword_hit (keywords_of config ''high'')) cs)
       \<and> med = length (filter (\<lambda>c. \<not> keyword_hit (keywords_of config ''high'') c
                                    \<and> keyword_hit (keywords_of config ''medium'') c) cs)"
    using assms by (simp add: risk_counters_eq)
  have rules:
    "(fst (analyze_risk_level config cs nm) = ''high'' \<longleftrightarrow> brk \<or> 0 < high)
       \<and> (fst (analyze_risk_level config cs nm) = ''medium'' \<longleftrightarrow>
            \<not> (brk \<or> 0 < high) \<and> (2 < med \<or> (0 < med \<and> is_critical config nm)))
       \<and> (fst (analyze_risk_level config cs nm) = ''low'' \<longleftrightarrow>
            \<not> (brk \<or> 0 < high) \<and> \<not> (2 < med \<or> (0 < med \<and> is_critical config nm)))
       \<and> (med = 1 \<and> high = 0 \<and> \<not> brk \<longrightarrow>
            fst (analyze_risk_level config cs nm)
              = (if is_critical config nm then ''medium'' else ''low''))"
    unfolding lvl by simp
  from rules cnt show ?thesis by (intro conjI) (erule conjunct1 | erule conjunct2 | blast)+
qed

theorem risk_level_rule_witness:
  "risk_counters example_config [example_commit ''bump api client''] ''frontend-lib''
     = (0, 1, False)
   \<and> fst (analyze_risk_level example_config [example_commit ''bump api client''] ''frontend-lib'')
       = ''medium''
   \<and> risk_counters example_config [example_commit ''bump api client''] ''docs-site''
       = (0, 1, False)
   \<and> fst (analyze_risk_level example_config [example_commit ''bump api client''] ''docs-site'')
       = ''low''"
proof -
  have c1: "risk_counters example_config [example_commit ''bump api client''] ''frontend-lib''
              = (0, 1, False)"
    by code_simp
  have c2: "risk_counters example_config [example_commit ''bump api client''] ''docs-site''
              = (0, 1, False)"
    by code_simp
  have k1: "is_critical example_config ''frontend-lib''"
    by (simp add: is_critical_def example_config_def)
  have k2: "\<not> is_critical example_config ''docs-site''"
    by (simp add: is_critical_def example_config_def)
  from risk_level_rule [OF c1] k1
  have r1: "fst (analyze_risk_level example_config [example_commit ''bump api client'']
              ''frontend-lib'') = ''medium''"
    by simp
  from risk_level_rule [OF c2] k2
  have r2: "fst (analyze_risk_level example_config [example_commit ''bump api client'']
              ''docs-site'') = ''low''"
    by simp
  from c1 c2 r1 r2 show ?thesis by simp
qed

subsection \<open>Change type\<close>

text \<open>
  C7. The change type is \<open>breaking\<close> when some commit hits the breaking patterns (which is
  the breaking flag); otherwise \<open>feature\<close> when some lower-cased message contains \<open>feat\<close>;
  otherwise \<open>bugfix\<close> when some contains \<open>fix\<close>; otherwise \<open>maintenance\<close>. The instance
  below is a commit list with no risk keyword, both counters 0, classified \<open>feature\<close>.
\<close>

theorem change_type_rule:
  "fst (snd (analyze_risk_level config cs nm)) =
     (if list_ex (breaking_hit (breaking_patterns_of config nm)) cs then ''breaking''
      else if list_ex (\<lambda>c. str_in ''feat'' (str_lower (message c))) cs then ''feature''
      else if list_ex (\<lambda>c. str_in ''fix'' (str_lower (message c))) cs then ''bugfix''
      else ''maintenance'')
   \<and> snd (snd (analyze_risk_level config cs nm))
       = list_ex (breaking_hit (breaking_patterns_of config nm)) cs"
  by (simp add: analyze_risk_level_def risk_counters_eq Let_def)

theorem change_type_rule_witness:
  "risk_counters default_config [example_commit ''feat: add widget''] ''frontend-lib''
     = (0, 0, False)
   \<and> fst (snd (analyze_risk_level default_config [example_commit ''feat: add widget'']
        ''frontend-lib'')) = ''feature''"
proof -
  have c: "risk_counters default_config [example_commit ''feat: add widget''] ''frontend-lib''
             = (0, 0, False)"
    by code_simp
  have b: "\<not> list_ex (breaking_hit (breaking_patterns_of default_config ''frontend-lib''))
               [example_commit ''feat: add widget'']"
    by code_simp
  have f: "list_ex (\<lambda>c. str_in ''feat'' (str_lower (message c)))
             [example_commit ''feat: add widget'']"
    by code_simp
  have "fst (snd (analyze_risk_level default_config [example_commit ''feat: add widget'']
          ''frontend-lib'')) =
     (if list_ex (breaking_hit (breaking_patterns_of default_config ''frontend-lib''))
           [example_commit ''feat: add widget''] then ''breaking''
      else if list_ex (\<lambda>c. str_in ''feat'' (str_lower (message c)))
           [example_commit ''feat: add widget''] then ''feature''
      else if list_ex (\<lambda>c. str_in ''fix'' (str_lower (message c)))
           [example_commit ''feat: add widget''] then ''bugfix''
      else ''maintenance'')"
    using change_type_rule [of default_config "[example_commit ''feat: add widget'']"
        "''frontend-lib''"]
    by (rule conjunct1)
  then have "fst (snd (analyze_risk_level default_config [example_commit ''feat: add widget'']
          ''frontend-lib'')) = ''feature''"
    by (simp only: b f if_True if_False)
  with c show ?thesis by (rule conjI)
qed

subsection \<open>Case handling of patterns and keywords\<close>













section \<open>Properties of the aggregator and the composer\<close>

subsection \<open>The loop over the descriptors and the badge lookups\<close>

lemma analyze_risk_level_range:
  "fst (analyze_risk_level config cs nm) \<in> risk_levels
   \<and> fst (snd (analyze_risk_level config cs nm)) \<in> change_types"
  by (simp add: analyze_risk_level_def risk_levels_def change_types_def Let_def
        split: prod.splits)

lemma resolve_None_iff: "resolve_old_commit git d = None \<longleftrightarrow> skipped git d"
  by (auto simp: resolve_old_commit_def skipped_def Let_def split: option.splits)

lemma analyze_one_None_iff: "analyze_one git config d = None \<longleftrightarrow> skipped git d"
  by (auto simp: analyze_one_def Let_def resolve_None_iff [symmetric]
        split: option.splits prod.splits)

lemma analyze_one_fields:
  assumes "analyze_one git config d = Some a"
  shows "\<exists>old. resolve_old_commit git d = Some old
          \<and> commits_count a = length (range_ids git d old)
          \<and> commits a = map (\<lambda>h. get_commit_info git (strip h) (info_path d))
               (filter nonblank (take 10
                  (commit_hashes_of git (info_path d) old (info_new_commit d))))
          \<and> name a = path_name (info_path d)
          \<and> (risk_level a, change_type a, breaking_changes a)
              = analyze_risk_level config (commits a) (name a)"
  using assms
  by (auto simp: analyze_one_def Let_def range_ids_def split: option.splits prod.splits)

lemma filter_take_prefix:
  "filter P (take n xs) = take (length (filter P (take n xs))) (filter P xs)"
proof (induction xs arbitrary: n)
  case Nil
  show ?case by simp
next
  case (Cons x xs)
  show ?case
  proof (cases n)
    case 0
    then show ?thesis by simp
  next
    case (Suc k)
    with Cons.IH [of k] show ?thesis by simp
  qed
qed

lemma length_filter_take_le:
  "length (filter P (take n xs)) \<le> n \<and> length (filter P (take n xs)) \<le> length (filter P xs)"
proof
  have "length (filter P (take n xs)) \<le> length (take n xs)" by (rule length_filter_le)
  then show "length (filter P (take n xs)) \<le> n" by simp
next
  have "length (filter P (take n xs)) = length (take (length (filter P (take n xs))) (filter P xs))"
    using filter_take_prefix [of P n xs] by simp
  then show "length (filter P (take n xs)) \<le> length (filter P xs)" by simp
qed

lemma analyze_loop_eq:
  "analyze_loop git config ds (analyses, tot) =
     (analyses @ List.map_filter (analyze_one git config) ds,
      tot + sum_list (map commits_count (List.map_filter (analyze_one git config) ds)))"
proof (induction ds arbitrary: analyses tot)
  case Nil
  show ?case by (simp add: List.map_filter_simps)
next
  case (Cons d ds)
  show ?case
    by (cases "analyze_one git config d") (simp_all add: Cons.IH List.map_filter_simps)
qed

lemma dict_get_risk:
  "k \<in> risk_levels \<Longrightarrow> \<exists>v. dict_get risk_emoji_table k = Inr v"
  by (auto simp: risk_levels_def dict_get_def risk_emoji_table_def)

lemma dict_get_change:
  "k \<in> change_types \<Longrightarrow> \<exists>v. dict_get change_emoji_table k = Inr v"
  by (auto simp: change_types_def dict_get_def change_emoji_table_def)

lemma dict_get_risk_fail:
  "k \<notin> risk_levels \<Longrightarrow> dict_get risk_emoji_table k = Inl (KeyError k)"
  by (simp add: risk_levels_def dict_get_def risk_emoji_table_def)

lemma dict_get_change_fail:
  "k \<notin> change_types \<Longrightarrow> dict_get change_emoji_table k = Inl (KeyError k)"
  by (simp add: change_types_def dict_get_def change_emoji_table_def)

lemma submodule_block_ok:
  assumes "risk_level s \<in> risk_levels" "change_type s \<in> change_types"
  shows "\<exists>ls. submodule_block s = Inr ls"
proof -
  from assms(1) obtain v where v: "dict_get risk_emoji_table (risk_level s) = Inr v"
    using dict_get_risk by blast
  from assms(2) obtain w where w: "dict_get change_emoji_table (change_type s) = Inr w"
    using dict_get_change by blast
  show ?thesis by (simp add: submodule_block_def v w)
qed

lemma submodule_block_fail:
  assumes "risk_level s \<notin> risk_levels \<or> change_type s \<notin> change_types"
  shows "\<exists>k. submodule_block s = Inl (KeyError k)"
proof (cases "risk_level s \<in> risk_levels")
  case False
  then show ?thesis by (simp add: submodule_block_def dict_get_risk_fail)
next
  case True
  then obtain v where v: "dict_get risk_emoji_table (risk_level s) = Inr v"
    using dict_get_risk by blast
  from True assms have "change_type s \<notin> change_types" by simp
  then show ?thesis by (simp add: submodule_block_def v dict_get_change_fail)
qed

lemma submodule_block_cases:
  "(\<exists>ls. submodule_block s = Inr ls) \<or> (\<exists>k. submodule_block s = Inl (KeyError k))"
  using submodule_block_ok [of s] submodule_block_fail [of s] by blast

lemma submodule_blocks_ok:
  "(\<forall>s \<in> set subs. risk_level s \<in> risk_levels \<and> change_type s \<in> change_types)
     \<Longrightarrow> \<exists>ls. submodule_blocks subs = Inr ls"
proof (induction subs)
  case Nil
  show ?case by simp
next
  case (Cons s subs)
  then obtain ls where ls: "submodule_block s = Inr ls"
    using submodule_block_ok [of s] by auto
  from Cons obtain ls2 where ls2: "submodule_blocks subs = Inr ls2" by auto
  show ?case by (simp add: ls ls2)
qed

lemma submodule_blocks_fail:
  "(\<exists>s \<in> set subs. risk_level s \<notin> risk_levels \<or> change_type s \<notin> change_types)
     \<Longrightarrow> \<exists>k. submodule_blocks subs = Inl (KeyError k)"
proof (induction subs)
  case Nil
  then show ?case by simp
next
  case (Cons s subs)
  show ?case
  proof (cases "risk_level s \<notin> risk_levels \<or> change_type s \<notin> change_types")
    case True
    then obtain k where "submodule_block s = Inl (KeyError k)"
      using submodule_block_fail by blast
    then show ?thesis by simp
  next
    case False
    with Cons.prems have "\<exists>s \<in> set subs. risk_level s \<notin> risk_levels \<or> change_type s \<notin> change_types"
      by auto
    then obtain k where k: "submodule_blocks subs = Inl (KeyError k)"
      using Cons.IH by blast
    from False obtain ls where "submodule_block s = Inr ls"
      using submodule_block_ok [of s] by auto
    with k show ?thesis by simp
  qed
qed

lemma generate_pr_content_ok:
  "(\<forall>s \<in> set (submodules result). risk_level s \<in> risk_levels \<and> change_type s \<in> change_types)
     \<Longrightarrow> \<exists>tb. generate_pr_content result = Inr tb"
  using submodule_blocks_ok [of "submodules result"]
  by (auto simp: generate_pr_content_def Let_def)

lemma generate_pr_content_fail:
  "(\<exists>s \<in> set (submodules result). risk_level s \<notin> risk_levels \<or> change_type s \<notin> change_types)
     \<Longrightarrow> \<exists>k. generate_pr_content result = Inl (KeyError k)"
  using submodule_blocks_fail [of "submodules result"]
  by (auto simp: generate_pr_content_def Let_def)

lemma analyses_in_range:
  assumes "a \<in> set (List.map_filter (analyze_one git config) ds)"
  shows "risk_level a \<in> risk_levels \<and> change_type a \<in> change_types"
proof -
  from assms obtain d where "analyze_one git config d = Some a"
    by (auto simp: List.map_filter_def)
  then have "(risk_level a, change_type a, breaking_changes a)
              = analyze_risk_level config (commits a) (name a)"
    using analyze_one_fields by blast
  then have "risk_level a = fst (analyze_risk_level config (commits a) (name a))"
    "change_type a = fst (snd (analyze_risk_level config (commits a) (name a)))"
    by (metis fst_conv, metis fst_conv snd_conv)
  then show ?thesis using analyze_risk_level_range by simp
qed

lemma analyze_submodules_result:
  "\<exists>title body. analyze_submodules git config ds =
     Inr \<lparr>summary = summary_of (List.map_filter (analyze_one git config) ds)
                      (sum_list (map commits_count (List.map_filter (analyze_one git config) ds))),
          submodules = List.map_filter (analyze_one git config) ds,
          total_commits = sum_list (map commits_count (List.map_filter (analyze_one git config) ds)),
          overall_risk = overall_risk_of (List.map_filter (analyze_one git config) ds),
          result_reviewers = get_suggested_reviewers config (List.map_filter (analyze_one git config) ds),
          pr_title = title, pr_body = body\<rparr>"
proof -
  let ?as = "List.map_filter (analyze_one git config) ds"
  let ?r = "\<lparr>summary = summary_of ?as (sum_list (map commits_count ?as)),
          submodules = ?as,
          total_commits = sum_list (map commits_count ?as),
          overall_risk = overall_risk_of ?as,
          result_reviewers = get_suggested_reviewers config ?as,
          pr_title = [], pr_body = []\<rparr>"
  have "\<forall>s \<in> set (submodules ?r). risk_level s \<in> risk_levels \<and> change_type s \<in> change_types"
    using analyses_in_range by simp
  then obtain tb where "generate_pr_content ?r = Inr tb"
    using generate_pr_content_ok by blast
  then show ?thesis
    by (cases tb) (simp add: analyze_submodules_def analyze_loop_eq)
qed


lemma map_filter_skip:
  "List.map_filter f (filter (\<lambda>x. f x \<noteq> None) xs) = List.map_filter f xs"
  by (simp add: List.map_filter_def)

lemma analyze_submodules_cong:
  "List.map_filter (analyze_one git config) ds' = List.map_filter (analyze_one git config) ds
     \<Longrightarrow> analyze_submodules git config ds' = analyze_submodules git config ds"
  by (simp add: analyze_submodules_def analyze_loop_eq)

lemma example_run:
  "map (\<lambda>a. (commits_count a, length (commits a), breaking_changes a, risk_level a))
     (List.map_filter (analyze_one example_git default_config) example_input)
     = [(3, 3, True, ''high''), (12, 10, False, ''low''), (0, 0, False, ''low'')]"
  by code_simp

subsection \<open>Overall risk\<close>

text \<open>
  C3. The overall risk of a list of analyses is \<open>high\<close> when some analysis has the breaking
  flag set or risk level \<open>high\<close>; otherwise \<open>medium\<close> when some analysis has risk level
  \<open>medium\<close>; otherwise \<open>low\<close>. In particular one analysis with the breaking flag makes
  it \<open>high\<close>, whatever the risk levels are. The result of a run carries this value for
  its own list of analyses.
\<close>

theorem overall_risk_rule:
  "overall_risk_of analyses =
     (if \<exists>a \<in> set analyses. breaking_changes a \<or> risk_level a = ''high'' then ''high''
      else if \<exists>a \<in> set analyses. risk_level a = ''medium'' then ''medium''
      else ''low'')
   \<and> ((\<exists>a \<in> set analyses. breaking_changes a) \<longrightarrow> overall_risk_of analyses = ''high'')
   \<and> (analyze_submodules git config ds = Inr r \<longrightarrow>
        overall_risk r = overall_risk_of (submodules r))"
proof (intro conjI impI)
  show "overall_risk_of analyses =
     (if \<exists>a \<in> set analyses. breaking_changes a \<or> risk_level a = ''high'' then ''high''
      else if \<exists>a \<in> set analyses. risk_level a = ''medium'' then ''medium''
      else ''low'')"
    by (auto simp: overall_risk_of_def list_ex_iff)
next
  assume "\<exists>a \<in> set analyses. breaking_changes a"
  then show "overall_risk_of analyses = ''high''"
    by (auto simp: overall_risk_of_def list_ex_iff)
next
  assume r: "analyze_submodules git config ds = Inr r"
  from analyze_submodules_result [of git config ds] r
  show "overall_risk r = overall_risk_of (submodules r)"
    by auto
qed

theorem overall_risk_rule_witness:
  "(\<exists>a \<in> set [example_analysis [] ''medium'' ''feature'' False,
                 example_analysis [] ''low'' ''breaking'' True]. breaking_changes a)
   \<and> overall_risk_of [example_analysis [] ''medium'' ''feature'' False,
                       example_analysis [] ''low'' ''breaking'' True] = ''high''
   \<and> (\<exists>r. analyze_submodules example_git default_config example_input = Inr r
          \<and> overall_risk r = overall_risk_of (submodules r))"
proof -
  have b: "\<exists>a \<in> set [example_analysis [] ''medium'' ''feature'' False,
                 example_analysis [] ''low'' ''breaking'' True]. breaking_changes a"
    by (simp add: example_analysis_def)
  obtain r where r: "analyze_submodules example_git default_config example_input = Inr r"
    using analyze_submodules_result [of example_git default_config example_input] by blast
  note t = overall_risk_rule [of "[example_analysis [] ''medium'' ''feature'' False,
                 example_analysis [] ''low'' ''breaking'' True]" example_git default_config
                 example_input r]
  from t b have h: "overall_risk_of [example_analysis [] ''medium'' ''feature'' False,
                       example_analysis [] ''low'' ''breaking'' True] = ''high''"
    by blast
  from t r have o: "overall_risk r = overall_risk_of (submodules r)"
    by blast
  from b h r o show ?thesis by blast
qed

subsection \<open>Commit counts\<close>

text \<open>
  C4. In the result of a run, \<open>total_commits\<close> is the sum of \<open>commits_count\<close> over the
  returned analyses. Each returned analysis comes from a descriptor of the input; its
  \<open>commits_count\<close> is the number of commit identifiers in the range of that descriptor,
  its \<open>commits\<close> are the records of a prefix of these identifiers, at most 10 of them,
  and its risk level, change type and breaking flag are those the classifier returns for
  this list \<open>commits\<close>.
\<close>

theorem total_commits_sum:
  assumes "analyze_submodules git config ds = Inr r"
  shows "total_commits r = sum_list (map commits_count (submodules r))
    \<and> (\<forall>a \<in> set (submodules r). \<exists>d \<in> set ds. \<exists>old.
          analyze_one git config d = Some a \<and> resolve_old_commit git d = Some old
          \<and> commits_count a = length (range_ids git d old)
          \<and> commits a = map (\<lambda>h. get_commit_info git (strip h) (info_path d))
                          (take (length (commits a)) (range_ids git d old))
          \<and> length (commits a) \<le> 10 \<and> length (commits a) \<le> commits_count a
          \<and> (risk_level a, change_type a, breaking_changes a)
              = analyze_risk_level config (commits a) (name a))"
proof
  from analyze_submodules_result [of git config ds] assms
  have tc: "total_commits r = sum_list (map commits_count (List.map_filter (analyze_one git config) ds))"
    and subs: "submodules r = List.map_filter (analyze_one git config) ds"
    by auto
  from tc subs show "total_commits r = sum_list (map commits_count (submodules r))"
    by simp
  show "\<forall>a \<in> set (submodules r). \<exists>d \<in> set ds. \<exists>old.
          analyze_one git config d = Some a \<and> resolve_old_commit git d = Some old
          \<and> commits_count a = length (range_ids git d old)
          \<and> commits a = map (\<lambda>h. get_commit_info git (strip h) (info_path d))
                          (take (length (commits a)) (range_ids git d old))
          \<and> length (commits a) \<le> 10 \<and> length (commits a) \<le> commits_count a
          \<and> (risk_level a, change_type a, breaking_changes a)
              = analyze_risk_level config (commits a) (name a)"
  proof
    fix a
    assume "a \<in> set (submodules r)"
    with subs obtain d where d: "d \<in> set ds" "analyze_one git config d = Some a"
      by (auto simp: List.map_filter_def)
    from analyze_one_fields [OF d(2)] obtain old where
      old: "resolve_old_commit git d = Some old"
      and cnt: "commits_count a = length (range_ids git d old)"
      and cs: "commits a = map (\<lambda>h. get_commit_info git (strip h) (info_path d))
               (filter nonblank (take 10
                  (commit_hashes_of git (info_path d) old (info_new_commit d))))"
      and cls: "(risk_level a, change_type a, breaking_changes a)
              = analyze_risk_level config (commits a) (name a)"
      by blast
    let ?hs = "commit_hashes_of git (info_path d) old (info_new_commit d)"
    have len: "length (commits a) = length (filter nonblank (take 10 ?hs))"
      by (simp add: cs)
    have pre: "filter nonblank (take 10 ?hs) = take (length (commits a)) (range_ids git d old)"
      unfolding len range_ids_def by (rule filter_take_prefix)
    have le: "length (commits a) \<le> 10" "length (commits a) \<le> commits_count a"
      using length_filter_take_le [of nonblank 10 ?hs]
      by (simp_all add: len cnt range_ids_def)
    have "commits a = map (\<lambda>h. get_commit_info git (strip h) (info_path d))
                          (take (length (commits a)) (range_ids git d old))"
      using cs pre by simp
    with d old cnt le cls
    show "\<exists>d \<in> set ds. \<exists>old.
          analyze_one git config d = Some a \<and> resolve_old_commit git d = Some old
          \<and> commits_count a = length (range_ids git d old)
          \<and> commits a = map (\<lambda>h. get_commit_info git (strip h) (info_path d))
                          (take (length (commits a)) (range_ids git d old))
          \<and> length (commits a) \<le> 10 \<and> length (commits a) \<le> commits_count a
          \<and> (risk_level a, change_type a, breaking_changes a)
              = analyze_risk_level config (commits a) (name a)"
      by blast
  qed
qed

theorem total_commits_sum_witness:
  "\<exists>r. analyze_submodules example_git default_config example_input = Inr r
     \<and> map commits_count (submodules r) = [3, 12, 0]
     \<and> map (\<lambda>a. length (commits a)) (submodules r) = [3, 10, 0]
     \<and> total_commits r = 15"
proof -
  obtain r where r: "analyze_submodules example_git default_config example_input = Inr r"
    and subs: "submodules r = List.map_filter (analyze_one example_git default_config) example_input"
    using analyze_submodules_result [of example_git default_config example_input] by force
  have "map (\<lambda>a. (commits_count a, length (commits a), breaking_changes a, risk_level a))
          (submodules r)
        = [(3, 3, True, ''high''), (12, 10, False, ''low''), (0, 0, False, ''low'')]"
    unfolding subs by (rule example_run)
  then have c: "map commits_count (submodules r) = [3, 12, 0]"
    and l: "map (\<lambda>a. length (commits a)) (submodules r) = [3, 10, 0]"
    by auto
  from total_commits_sum [OF r]
  have "total_commits r = sum_list (map commits_count (submodules r))" by (rule conjunct1)
  with c have t: "total_commits r = 15" by simp
  show ?thesis
    by (rule exI [of _ r]) (simp only: r c l t simp_thms)
qed

subsection \<open>Descriptors without a previous revision\<close>

text \<open>
  C8. A skipped descriptor gives no analysis, and every other descriptor gives one. A run
  raises no error, and it returns what it returns on the input without the skipped
  descriptors: the analyses of the other descriptors, one each, in order, and
  \<open>total_commits\<close> is the sum over these analyses only.
\<close>

theorem unresolved_skipped:
  "(skipped git d \<longrightarrow> analyze_one git config d = None)
   \<and> (\<not> skipped git d \<longrightarrow> (\<exists>a. analyze_one git config d = Some a))
   \<and> analyze_submodules git config (filter (\<lambda>d. \<not> skipped git d) ds)
       = analyze_submodules git config ds
   \<and> (\<exists>r. analyze_submodules git config ds = Inr r
         \<and> submodules r = List.map_filter (analyze_one git config)
                            (filter (\<lambda>d. \<not> skipped git d) ds)
         \<and> length (submodules r) = length (filter (\<lambda>d. \<not> skipped git d) ds)
         \<and> total_commits r = sum_list (map commits_count (submodules r)))"
proof (intro conjI impI)
  assume "skipped git d"
  then show "analyze_one git config d = None" by (simp add: analyze_one_None_iff)
next
  assume "\<not> skipped git d"
  then have "analyze_one git config d \<noteq> None" by (simp add: analyze_one_None_iff)
  then show "\<exists>a. analyze_one git config d = Some a" by auto
next
  have flt: "filter (\<lambda>d. \<not> skipped git d) ds = filter (\<lambda>d. analyze_one git config d \<noteq> None) ds"
    by (simp add: analyze_one_None_iff)
  have mf: "List.map_filter (analyze_one git config) (filter (\<lambda>d. \<not> skipped git d) ds)
              = List.map_filter (analyze_one git config) ds"
    unfolding flt by (rule map_filter_skip)
  then show "analyze_submodules git config (filter (\<lambda>d. \<not> skipped git d) ds)
       = analyze_submodules git config ds"
    by (rule analyze_submodules_cong)
  from analyze_submodules_result [of git config ds] obtain r where
    r: "analyze_submodules git config ds = Inr r"
    and subs: "submodules r = List.map_filter (analyze_one git config) ds"
    and tc: "total_commits r = sum_list (map commits_count (List.map_filter (analyze_one git config) ds))"
    by force
  have len: "length (submodules r) = length (filter (\<lambda>d. \<not> skipped git d) ds)"
    unfolding subs flt by (simp add: List.map_filter_def)
  from r subs mf len tc
  show "\<exists>r. analyze_submodules git config ds = Inr r
         \<and> submodules r = List.map_filter (analyze_one git config)
                            (filter (\<lambda>d. \<not> skipped git d) ds)
         \<and> length (submodules r) = length (filter (\<lambda>d. \<not> skipped git d) ds)
         \<and> total_commits r = sum_list (map commits_count (submodules r))"
    by auto
qed

theorem unresolved_skipped_witness:
  "skipped example_git (example_input ! 1)
   \<and> analyze_one example_git default_config (example_input ! 1) = None
   \<and> \<not> skipped example_git (example_input ! 0)
   \<and> (\<exists>a. analyze_one example_git default_config (example_input ! 0) = Some a)
   \<and> map info_path (filter (\<lambda>d. \<not> skipped example_git d) example_input)
       = [''libs/frontend-lib'', ''libs/big'', ''docs-site'']
   \<and> (\<exists>r. analyze_submodules example_git default_config example_input = Inr r
         \<and> length (submodules r) = 3)"
proof -
  have s1: "skipped example_git (example_input ! 1)" by code_simp
  have s0: "\<not> skipped example_git (example_input ! 0)" by code_simp
  have f: "map info_path (filter (\<lambda>d. \<not> skipped example_git d) example_input)
       = [''libs/frontend-lib'', ''libs/big'', ''docs-site'']" by code_simp
  note t1 = unresolved_skipped [of example_git "example_input ! 1" default_config example_input]
  note t0 = unresolved_skipped [of example_git "example_input ! 0" default_config example_input]
  from t1 s1 have n: "analyze_one example_git default_config (example_input ! 1) = None"
    by blast
  from t0 s0 have a: "\<exists>a. analyze_one example_git default_config (example_input ! 0) = Some a"
    by blast
  from t0 obtain r where r: "analyze_submodules example_git default_config example_input = Inr r"
    and len: "length (submodules r)
                = length (filter (\<lambda>d. \<not> skipped example_git d) example_input)"
    by blast
  have "length (filter (\<lambda>d. \<not> skipped example_git d) example_input)
          = length (map info_path (filter (\<lambda>d. \<not> skipped example_git d) example_input))"
    by simp
  also have "\<dots> = 3" unfolding f by simp
  finally have "length (submodules r) = 3" using len by simp
  with s1 n s0 a f r show ?thesis by blast
qed

subsection \<open>Badges\<close>

text \<open>
  C9. A run returns a result, and every analysis in it has a risk level among \<open>high\<close>,
  \<open>medium\<close>, \<open>low\<close> and a change type among \<open>breaking\<close>, \<open>feature\<close>, \<open>bugfix\<close>,
  \<open>maintenance\<close>. On analyses with such values the composer returns a title and a body;
  on a result with an analysis whose risk level or change type is another string it
  raises \<open>KeyError\<close>.
\<close>

theorem badge_lookups_total:
  "(\<exists>r. analyze_submodules git config ds = Inr r
        \<and> (\<forall>s \<in> set (submodules r).
              risk_level s \<in> risk_levels \<and> change_type s \<in> change_types))
   \<and> ((\<forall>s \<in> set (submodules result).
          risk_level s \<in> risk_levels \<and> change_type s \<in> change_types)
        \<longrightarrow> (\<exists>tb. generate_pr_content result = Inr tb))
   \<and> ((\<exists>s \<in> set (submodules result).
          risk_level s \<notin> risk_levels \<or> change_type s \<notin> change_types)
        \<longrightarrow> (\<exists>k. generate_pr_content result = Inl (KeyError k)))"
proof (intro conjI impI)
  from analyze_submodules_result [of git config ds] obtain r where
    r: "analyze_submodules git config ds = Inr r"
    and subs: "submodules r = List.map_filter (analyze_one git config) ds"
    by force
  have "\<forall>s \<in> set (submodules r). risk_level s \<in> risk_levels \<and> change_type s \<in> change_types"
    unfolding subs using analyses_in_range by blast
  with r show "\<exists>r. analyze_submodules git config ds = Inr r
        \<and> (\<forall>s \<in> set (submodules r).
              risk_level s \<in> risk_levels \<and> change_type s \<in> change_types)"
    by blast
next
  assume "\<forall>s \<in> set (submodules result).
          risk_level s \<in> risk_levels \<and> change_type s \<in> change_types"
  then show "\<exists>tb. generate_pr_content result = Inr tb"
    by (rule generate_pr_content_ok)
next
  assume "\<exists>s \<in> set (submodules result).
          risk_level s \<notin> risk_levels \<or> change_type s \<notin> change_types"
  then show "\<exists>k. generate_pr_content result = Inl (KeyError k)"
    by (rule generate_pr_content_fail)
qed

theorem badge_lookups_total_witness:
  "risk_level (example_analysis [] ''unknown'' ''feature'' False) \<notin> risk_levels
   \<and> (\<exists>k. generate_pr_content (example_result [example_analysis [] ''unknown'' ''feature'' False])
            = Inl (KeyError k))
   \<and> risk_level (example_analysis [] ''low'' ''feature'' False) \<in> risk_levels
   \<and> change_type (example_analysis [] ''low'' ''feature'' False) \<in> change_types
   \<and> (\<exists>tb. generate_pr_content (example_result [example_analysis [] ''low'' ''feature'' False])
            = Inr tb)"
proof -
  have b1: "risk_level (example_analysis [] ''unknown'' ''feature'' False) \<notin> risk_levels"
    by (simp add: example_analysis_def risk_levels_def)
  have g1: "risk_level (example_analysis [] ''low'' ''feature'' False) \<in> risk_levels"
    by (simp add: example_analysis_def risk_levels_def)
  have g2: "change_type (example_analysis [] ''low'' ''feature'' False) \<in> change_types"
    by (simp add: example_analysis_def change_types_def)
  have bad: "\<exists>s \<in> set (submodules (example_result [example_analysis [] ''unknown'' ''feature'' False])).
       risk_level s \<notin> risk_levels \<or> change_type s \<notin> change_types"
    using b1 by (simp add: example_result_def)
  have good: "\<forall>s \<in> set (submodules (example_result [example_analysis [] ''low'' ''feature'' False])).
       risk_level s \<in> risk_levels \<and> change_type s \<in> change_types"
    using g1 g2 by (simp add: example_result_def)
  from badge_lookups_total [of example_git default_config example_input
      "example_result [example_analysis [] ''unknown'' ''feature'' False]"] bad
  have f: "\<exists>k. generate_pr_content (example_result [example_analysis [] ''unknown'' ''feature'' False])
            = Inl (KeyError k)"
    by blast
  from badge_lookups_total [of example_git default_config example_input
      "example_result [example_analysis [] ''low'' ''feature'' False]"] good
  have g: "\<exists>tb. generate_pr_content (example_result [example_analysis [] ''low'' ''feature'' False])
            = Inr tb"
    by blast
  from b1 f g1 g2 g show ?thesis by (intro conjI)
qed

subsection \<open>The commits shown in the body\<close>

text \<open>
  C5 fails on the code. For an analysis with six commits, oldest first, the body shows
  the first five, which are the five oldest, and the note for one more commit: the most
  recent commit, the last of the list, is not shown.
\<close>

theorem recent_commits_shows_oldest:
  "commit_lines (example_analysis six_commits ''low'' ''maintenance'' False) =
     [newline # ''**Recent commits**:'',
      ''- `c1` change 1 (dev)'',
      ''- `c2` change 2 (dev)'',
      ''- `c3` change 3 (dev)'',
      ''- `c4` change 4 (dev)'',
      ''- `c5` change 5 (dev)'',
      ''- ... and 1 more commits'']
   \<and> commit_line (last six_commits) = ''- `c6` change 6 (dev)''
   \<and> commit_line (last six_commits)
       \<notin> set (commit_lines (example_analysis six_commits ''low'' ''maintenance'' False))"
  by code_simp

end
